theory Spec2Isabelle
  imports Main "HOL-Library.Word" "HOL-Library.Sublist" "HOL-Library.Multiset"
begin

section \<open>The validator of the games database (\<^verbatim>\<open>_validation/app.js\<close>)\<close>

text \<open>
  The program walks the game folders of a directory, checks the images, the metadata
  document and the save bundles of each, collects the violations in one list and prints
  them at the end. The embedding below follows the script function by function.

  Conventions of the embedding:
  \<^item> A JavaScript string is the list of its code units; \<open>char\<close> holds the code units
    below 256, which is where every character class of the script lives.
  \<^item> A JavaScript number that is an integer is an \<open>int\<close>. JavaScript keeps the nearest
    double: the same number up to \<open>2 ^ 53\<close>, and rounded monotonically beyond, so the
    comparisons with 5 and 999 made by the script come out the same.
  \<^item> Every call into the file system or into a library (\<^verbatim>\<open>fs\<close>, \<^verbatim>\<open>path\<close>,
    \<^verbatim>\<open>read-chunk\<close>, \<^verbatim>\<open>image-type\<close>, \<^verbatim>\<open>image-size\<close>, \<^verbatim>\<open>toml\<close>, \<^verbatim>\<open>group-by\<close>) is a
    field of the record \<open>env\<close>: the model is parametric in what these calls answer.
  \<^item> A raised exception is the outcome \<open>Thr\<close>; it carries the state at the moment of the
    raise, since the error list is a global of the script and survives the unwinding.
\<close>

subsection \<open>Values of the metadata document\<close>

datatype exn = TypeError | Error string

text \<open>
  What \<^verbatim>\<open>toml.parse\<close> builds: strings, numbers, booleans, dates, arrays and tables,
  and \<^verbatim>\<open>undefined\<close> for what a property read finds missing.
  \<open>JFloat\<close> is a number that is not an integer and \<open>JDate\<close> a \<^verbatim>\<open>Date\<close> object; the
  script reads neither except through \<^verbatim>\<open>String(v)\<close>, so both are held by the text that
  \<^verbatim>\<open>String\<close> prints for them.
\<close>

datatype jsval =
    JUndefined
  | JStr string
  | JNum int
  | JFloat string
  | JBool bool
  | JDate string
  | JArr "jsval list"
  | JObj "(string \<times> jsval) list"

text \<open>
  \<^verbatim>\<open>struct[name]\<close> for the property names the script reads (the field names of the
  document, and \<^verbatim>\<open>length\<close>). Reading a property of \<^verbatim>\<open>undefined\<close> raises a TypeError.
  A table answers with its own entry; arrays and strings own \<^verbatim>\<open>length\<close> only; numbers,
  booleans and dates own none of these names.
\<close>

fun js_get :: "jsval \<Rightarrow> string \<Rightarrow> exn + jsval" where
  "js_get JUndefined name = Inl TypeError"
| "js_get (JObj kvs) name = (case map_of kvs name of None \<Rightarrow> Inr JUndefined | Some v \<Rightarrow> Inr v)"
| "js_get (JArr xs) name = (if name = ''length'' then Inr (JNum (int (length xs))) else Inr JUndefined)"
| "js_get (JStr s) name = (if name = ''length'' then Inr (JNum (int (length s))) else Inr JUndefined)"
| "js_get _ name = Inr JUndefined"

subsection \<open>Decimal text of a number\<close>

function dec_nat :: "nat \<Rightarrow> string" where
  "dec_nat n =
     (if n < 10 then [''0123456789'' ! n]
      else dec_nat (n div 10) @ [''0123456789'' ! (n mod 10)])"
  by pat_completeness auto
termination
  by (relation "measure id") auto

definition dec_int :: "int \<Rightarrow> string" where
  "dec_int i = (if i < 0 then CHR ''-'' # dec_nat (nat (- i)) else dec_nat (nat i))"

subsection \<open>\<^verbatim>\<open>String(v)\<close>\<close>

text \<open>
  \<^verbatim>\<open>String\<close> of an array joins the texts of its elements with commas, an \<^verbatim>\<open>undefined\<close>
  element giving the empty text. \<^verbatim>\<open>String\<close> of a table is what the parser's tables
  answer, \<open>obj_text\<close>: the text \<^verbatim>\<open>[object Object]\<close> for a plain object, a TypeError for an
  object built without prototype. The decimal text of an integer holds below
  \<open>10 ^ 21\<close>, the range of every TOML integer.
\<close>

fun js_toString :: "(exn + string) \<Rightarrow> jsval \<Rightarrow> exn + string"
  and js_join :: "(exn + string) \<Rightarrow> jsval list \<Rightarrow> exn + string" where
  "js_toString obj_text JUndefined = Inr ''undefined''"
| "js_toString obj_text (JStr s) = Inr s"
| "js_toString obj_text (JNum n) = Inr (dec_int n)"
| "js_toString obj_text (JFloat t) = Inr t"
| "js_toString obj_text (JBool b) = Inr (if b then ''true'' else ''false'')"
| "js_toString obj_text (JDate t) = Inr t"
| "js_toString obj_text (JArr xs) = js_join obj_text xs"
| "js_toString obj_text (JObj kvs) = obj_text"
| "js_join obj_text [] = Inr []"
| "js_join obj_text (x # xs) =
     (case (if x = JUndefined then Inr [] else js_toString obj_text x) of
        Inl e \<Rightarrow> Inl e
      | Inr t \<Rightarrow>
          (if xs = [] then Inr t
           else (case js_join obj_text xs of Inl e \<Rightarrow> Inl e | Inr r \<Rightarrow> Inr (t @ '','' @ r))))"

subsection \<open>Regular expressions\<close>

text \<open>
  The two patterns of the script use literal characters, character ranges, alternation,
  concatenation and counted repetition. \<open>rmatch r s\<close> lists what is left of \<open>s\<close> after
  each way of matching \<open>r\<close> at its start; \<^verbatim>\<open>s.match(r)\<close> is not \<^verbatim>\<open>null\<close> when \<open>r\<close>
  matches at some offset of \<open>s\<close>, which is \<open>js_search\<close>.
\<close>

datatype regex =
    Chr char
  | Range char char
  | Alt regex regex
  | Cat regex regex
  | Times nat regex

definition in_range :: "char \<Rightarrow> char \<Rightarrow> char \<Rightarrow> bool" where
  "in_range lo hi c = ((of_char lo :: nat) \<le> of_char c \<and> (of_char c :: nat) \<le> of_char hi)"

fun rsize :: "regex \<Rightarrow> nat" where
  "rsize (Chr c) = 1"
| "rsize (Range lo hi) = 1"
| "rsize (Alt a b) = Suc (rsize a + rsize b)"
| "rsize (Cat a b) = Suc (rsize a + rsize b)"
| "rsize (Times n a) = Suc (rsize a + n)"

function rmatch :: "regex \<Rightarrow> string \<Rightarrow> string list" where
  "rmatch (Chr c) s = (case s of [] \<Rightarrow> [] | x # t \<Rightarrow> if x = c then [t] else [])"
| "rmatch (Range lo hi) s = (case s of [] \<Rightarrow> [] | x # t \<Rightarrow> if in_range lo hi x then [t] else [])"
| "rmatch (Alt a b) s = rmatch a s @ rmatch b s"
| "rmatch (Cat a b) s = concat (map (rmatch b) (rmatch a s))"
| "rmatch (Times 0 a) s = [s]"
| "rmatch (Times (Suc n) a) s = concat (map (rmatch (Times n a)) (rmatch a s))"
  by pat_completeness auto
termination
  by (relation "measure (\<lambda>(r, s). rsize r)") auto

fun js_search :: "regex \<Rightarrow> string \<Rightarrow> bool" where
  "js_search r [] = (rmatch r [] \<noteq> [])"
| "js_search r (c # t) = (rmatch r (c # t) \<noteq> [] \<or> js_search r t)"

text \<open>\<^verbatim>\<open>[0-9]\<close> and \<^verbatim>\<open>[a-zA-Z0-9]\<close>.\<close>

definition re_digit :: regex where
  "re_digit = Range CHR ''0'' CHR ''9''"

definition re_alnum :: regex where
  "re_alnum = Alt (Range CHR ''a'' CHR ''z'') (Alt (Range CHR ''A'' CHR ''Z'') (Range CHR ''0'' CHR ''9''))"

text \<open>\<^verbatim>\<open>/([a-zA-Z0-9]){16}/\<close>\<close>

definition re_title_id :: regex where
  "re_title_id = Times 16 re_alnum"

text \<open>\<^verbatim>\<open>/[0-9]{4}-((0[1-9])|(1[0-2]))-((0[1-9])|([1-2][0-9])|(3[0-1]))/\<close>\<close>

definition re_month :: regex where
  "re_month = Alt (Cat (Chr CHR ''0'') (Range CHR ''1'' CHR ''9''))
                  (Cat (Chr CHR ''1'') (Range CHR ''0'' CHR ''2''))"

definition re_day :: regex where
  "re_day = Alt (Cat (Chr CHR ''0'') (Range CHR ''1'' CHR ''9''))
             (Alt (Cat (Range CHR ''1'' CHR ''2'') (Range CHR ''0'' CHR ''9''))
                  (Cat (Chr CHR ''3'') (Range CHR ''0'' CHR ''1'')))"

definition re_date :: regex where
  "re_date = Cat (Times 4 re_digit)
               (Cat (Chr CHR ''-'') (Cat re_month (Cat (Chr CHR ''-'') re_day)))"

subsection \<open>\<^verbatim>\<open>parseInt\<close>\<close>

text \<open>
  \<^verbatim>\<open>parseInt(v)\<close> with no radix reads \<^verbatim>\<open>String(v)\<close>: leading white space is dropped, then
  an optional sign, then \<^verbatim>\<open>0x\<close> or \<^verbatim>\<open>0X\<close> switches to radix 16, then the longest run of
  digits is the number; no digit at all gives \<^verbatim>\<open>NaN\<close>, which is \<open>None\<close> here.
  White space below code unit 256: tab, line feed, vertical tab, form feed, carriage
  return, space and the no-break space.
\<close>

definition is_space :: "char \<Rightarrow> bool" where
  "is_space c = ((of_char c :: nat) \<in> {9, 10, 11, 12, 13, 32, 160})"

definition digit_val :: "char \<Rightarrow> nat option" where
  "digit_val c =
     (if in_range CHR ''0'' CHR ''9'' c then Some (of_char c - 48)
      else if in_range CHR ''a'' CHR ''z'' c then Some (of_char c - 87)
      else if in_range CHR ''A'' CHR ''Z'' c then Some (of_char c - 55)
      else None)"

definition is_digit_of :: "nat \<Rightarrow> char \<Rightarrow> bool" where
  "is_digit_of radix c = (case digit_val c of None \<Rightarrow> False | Some d \<Rightarrow> d < radix)"

definition digits_value :: "nat \<Rightarrow> string \<Rightarrow> nat" where
  "digits_value radix z = foldl (\<lambda>acc c. acc * radix + the (digit_val c)) 0 z"

definition parseInt_text :: "string \<Rightarrow> int option" where
  "parseInt_text input =
     (let s = dropWhile is_space input;
          neg = (s \<noteq> [] \<and> hd s = CHR ''-'');
          s = (if s \<noteq> [] \<and> (hd s = CHR ''+'' \<or> hd s = CHR ''-'') then tl s else s);
          hex = (2 \<le> length s \<and> (take 2 s = ''0x'' \<or> take 2 s = ''0X''));
          radix = (if hex then 16 else 10);
          s = (if hex then drop 2 s else s);
          z = takeWhile (is_digit_of radix) s
      in if z = [] then None
         else Some ((if neg then - 1 else 1) * int (digits_value radix z)))"

definition parseInt :: "(exn + string) \<Rightarrow> jsval \<Rightarrow> exn + int option" where
  "parseInt obj_text v =
     (case js_toString obj_text v of Inl e \<Rightarrow> Inl e | Inr t \<Rightarrow> Inr (parseInt_text t))"

subsection \<open>Errors, console and state\<close>

text \<open>
  One constructor per message of the script, with the values its template prints.
\<close>

datatype msg =
    ImageNotFound string  \<comment> \<open>\<^verbatim>\<open>Image "${path}"' was not found at ${path}.\<close>\<close>
  | IncorrectFormat string string  \<comment> \<open>\<^verbatim>\<open>Incorrect format of image (${type} != ${config.type})\<close>\<close>
  | WrongDimensions string nat nat nat nat
      \<comment> \<open>\<^verbatim>\<open>Image "${path}"'s dimensions are W x H instead of the required CW x CH.\<close>\<close>
  | FieldMissing string  \<comment> \<open>\<^verbatim>\<open>Field "name" missing\<close>\<close>
  | FieldNotString string  \<comment> \<open>\<^verbatim>\<open>Field "name" is not a string\<close>\<close>
  | FieldEmpty string  \<comment> \<open>\<^verbatim>\<open>Field "name" is empty\<close>\<close>
  | FieldNotBoolean string  \<comment> \<open>\<^verbatim>\<open>Field "name" is not a boolean\<close>\<close>
  | NotValidDate string string  \<comment> \<open>\<^verbatim>\<open>"${name}" is not a valid date ("${field}").\<close>\<close>
  | DoesNotExist string  \<comment> \<open>\<^verbatim>\<open>"${dir}" does not exist!\<close>\<close>
  | TomlNotFound string  \<comment> \<open>\<^verbatim>\<open>TOML was not found at ${path}.\<close>\<close>
  | TomlParseError "nat option" string  \<comment> \<open>\<^verbatim>\<open>TOML parse error (line): message\<close>\<close>
  | IssuesNotArray  \<comment> \<open>\<^verbatim>\<open>Github issues field is not an array!\<close>\<close>
  | IssueNotNumber  \<comment> \<open>\<^verbatim>\<open>Github issues entry is not a number!\<close>\<close>
  | ReleaseTitleLength nat  \<comment> \<open>\<^verbatim>\<open>Release #${i + 1}: Game title ID has an invalid length\<close>\<close>
  | ReleaseTitleNotHex nat  \<comment> \<open>\<^verbatim>\<open>Release #${i + 1}: Game title ID is not a hexadecimal ID\<close>\<close>
  | ReleaseInvalidRegion nat string  \<comment> \<open>\<^verbatim>\<open>Release #${i + 1}: Invalid region ${field}\<close>\<close>
  | NoReleases  \<comment> \<open>\<^verbatim>\<open>No releases.\<close>\<close>
  | TestcaseVersionLength nat  \<comment> \<open>\<^verbatim>\<open>Testcase #${i + 1}: Version is of incorrect length\<close>\<close>
  | TestcaseVersionSource nat  \<comment> \<open>\<^verbatim>\<open>Testcase #${i + 1}: Unknown version commit source\<close>\<close>
  | NoTestcases  \<comment> \<open>\<^verbatim>\<open>No testcases.\<close>\<close>
  | SaveTitleLength  \<comment> \<open>\<^verbatim>\<open>Game save data: Game title ID has an invalid length\<close>\<close>
  | SaveTitleNotHex  \<comment> \<open>\<^verbatim>\<open>Game save data: Game title ID is not a hexadecimal ID\<close>\<close>
  | NotAZip string  \<comment> \<open>\<^verbatim>\<open>File ${path} is not a .zip!\<close>\<close>

record verror =
  game :: "string option"
  error :: msg

datatype line =
    UnexpectedError string  \<comment> \<open>\<^verbatim>\<open>console.warn(`${game} has encountered an unexpected error.`)\<close>\<close>
  | Exception exn  \<comment> \<open>\<^verbatim>\<open>console.error(ex)\<close>\<close>
  | CompletedWithErrors  \<comment> \<open>\<^verbatim>\<open>console.warn('Validation completed with errors.')\<close>\<close>
  | GameHeader string  \<comment> \<open>\<^verbatim>\<open>console.info(`  ${key}:`)\<close>\<close>
  | Issue msg  \<comment> \<open>\<^verbatim>\<open>console.info(`   - ${group[issueKey].error}`)\<close>\<close>
  | CompletedWithoutErrors  \<comment> \<open>\<^verbatim>\<open>console.info('Validation completed without errors.')\<close>\<close>

text \<open>The globals \<^verbatim>\<open>currentGame\<close> and \<^verbatim>\<open>errors\<close>, and what was printed so far.\<close>

record state =
  currentGame :: "string option"
  errors :: "verror list"
  console :: "line list"

definition initial :: state where
  "initial = \<lparr>currentGame = None, errors = [], console = []\<rparr>"

subsection \<open>Statements that may raise\<close>

datatype 'a outcome = Ret 'a state | Thr exn state

type_synonym 'a comp = "state \<Rightarrow> 'a outcome"

definition ret :: "'a \<Rightarrow> 'a comp" where
  "ret a s = Ret a s"

definition skip :: "unit comp" where
  "skip = ret ()"

definition raise :: "exn \<Rightarrow> 'a comp" where
  "raise e s = Thr e s"

definition lift :: "exn + 'a \<Rightarrow> 'a comp" where
  "lift r = (case r of Inl e \<Rightarrow> raise e | Inr a \<Rightarrow> ret a)"

definition bnd :: "'a comp \<Rightarrow> ('a \<Rightarrow> 'b comp) \<Rightarrow> 'b comp" where
  "bnd m f s = (case m s of Ret a s' \<Rightarrow> f a s' | Thr e s' \<Rightarrow> Thr e s')"

definition seq :: "'a comp \<Rightarrow> 'b comp \<Rightarrow> 'b comp" where
  "seq m n = bnd m (\<lambda>_. n)"

definition whenever :: "bool \<Rightarrow> unit comp \<Rightarrow> unit comp" where
  "whenever b m = (if b then m else skip)"

primrec block :: "unit comp list \<Rightarrow> unit comp" where
  "block [] = skip"
| "block (m # ms) = seq m (block ms)"

text \<open>\<^verbatim>\<open>for (let i = 0; i < xs.length; i++) body(i, xs[i])\<close>, counting from \<open>i\<close>.\<close>

primrec for_index :: "nat \<Rightarrow> 'a list \<Rightarrow> (nat \<Rightarrow> 'a \<Rightarrow> unit comp) \<Rightarrow> unit comp" where
  "for_index i [] body = skip"
| "for_index i (x # xs) body = seq (body i x) (for_index (Suc i) xs body)"

definition for_each :: "'a list \<Rightarrow> ('a \<Rightarrow> unit comp) \<Rightarrow> unit comp" where
  "for_each xs body = for_index 0 xs (\<lambda>i. body)"

subsection \<open>Configuration and environment\<close>

text \<open>
  \<^verbatim>\<open>config.json\<close>: the constraint of an image, and the layout of a game folder.
\<close>

record constraint =
  cwidth :: nat
  cheight :: nat
  ctype :: string

record config =
  directory :: string
  boxart_filename :: string
  boxart :: constraint
  icon_filename :: string
  icon :: constraint
  data_filename :: string
  screenshots_dirname :: string
  screenshots :: constraint
  saves_dirname :: string
  regions :: "string list"

type_synonym byte = "8 word"

record stats =
  isDirectory :: bool
  isFile :: bool

record dimensions =
  width :: nat
  height :: nat

text \<open>
  What the file system and the libraries answer. \<open>imageType\<close> is \<open>None\<close> where the
  library returns \<^verbatim>\<open>null\<close> (no known format), and otherwise the \<^verbatim>\<open>mime\<close> of its result.
  \<open>toml_parse\<close> is \<open>Inl (line, message)\<close> where \<^verbatim>\<open>toml.parse\<close> raises \<^verbatim>\<open>e\<close> with
  \<^verbatim>\<open>e.line\<close> and \<^verbatim>\<open>e.message\<close>. \<open>groupBy\<close> gives the keys of the object built by
  \<^verbatim>\<open>groupBy(errors, "game")\<close>, in the order \<^verbatim>\<open>for ... in\<close> visits them, each with its array.
\<close>

record env =
  existsSync :: "string \<Rightarrow> bool"
  readdirSync :: "string \<Rightarrow> exn + string list"
  lstatSync :: "string \<Rightarrow> exn + stats"
  path_join :: "string \<Rightarrow> string \<Rightarrow> string"
  readFileSync :: "string \<Rightarrow> exn + byte list"
  readChunk :: "string \<Rightarrow> nat \<Rightarrow> nat \<Rightarrow> exn + byte list"
  imageType :: "byte list \<Rightarrow> string option"
  sizeOf :: "string \<Rightarrow> exn + dimensions"
  toml_parse :: "byte list \<Rightarrow> (nat option \<times> string) + jsval"
  obj_text :: "exn + string"
  groupBy :: "verror list \<Rightarrow> (string \<times> verror list) list"

subsection \<open>Listing a directory\<close>




subsection \<open>Recording an error\<close>

definition validationError :: "msg \<Rightarrow> unit comp" where
  "validationError err s =
     Ret () (s\<lparr>errors := errors s @ [\<lparr>game = currentGame s, error = err\<rparr>]\<rparr>)"

subsection \<open>Images\<close>

definition validateImage :: "env \<Rightarrow> string \<Rightarrow> constraint \<Rightarrow> unit comp" where
  "validateImage env path cfg =
     (if existsSync env path = False then validationError (ImageNotFound path)
      else
        bnd (lift (readChunk env path 0 12)) (\<lambda>buffer.
        bnd (case imageType env buffer of None \<Rightarrow> raise TypeError | Some mime \<Rightarrow> ret mime) (\<lambda>type.
        seq (whenever (type \<noteq> ctype cfg) (validationError (IncorrectFormat type (ctype cfg))))
       (bnd (lift (sizeOf env path)) (\<lambda>dims.
          whenever (width dims \<noteq> cwidth cfg \<or> height dims \<noteq> cheight cfg)
            (validationError
               (WrongDimensions path (width dims) (height dims) (cwidth cfg) (cheight cfg))))))))"


subsection \<open>Field helpers\<close>

definition validateExists :: "jsval \<Rightarrow> string \<Rightarrow> bool comp" where
  "validateExists struct name =
     bnd (lift (js_get struct name)) (\<lambda>v.
       if v = JUndefined then seq (validationError (FieldMissing name)) (ret False)
       else ret True)"

definition validateContents :: "jsval \<Rightarrow> string \<Rightarrow> (jsval \<Rightarrow> unit comp) \<Rightarrow> unit comp" where
  "validateContents struct name test =
     bnd (validateExists struct name) (\<lambda>found.
       if found then bnd (lift (js_get struct name)) test else skip)"

definition is_string :: "jsval \<Rightarrow> bool" where
  "is_string v = (case v of JStr s \<Rightarrow> True | _ \<Rightarrow> False)"

definition is_number :: "jsval \<Rightarrow> bool" where
  "is_number v = (case v of JNum n \<Rightarrow> True | JFloat t \<Rightarrow> True | _ \<Rightarrow> False)"

definition validateNotEmpty :: "jsval \<Rightarrow> string \<Rightarrow> unit comp" where
  "validateNotEmpty struct name =
     validateContents struct name (\<lambda>field.
       if \<not> is_string field then validationError (FieldNotString name)
       else if field = JStr [] then validationError (FieldEmpty name)
       else skip)"

definition validateIsBoolean :: "jsval \<Rightarrow> string \<Rightarrow> unit comp" where
  "validateIsBoolean struct name =
     bnd (lift (js_get struct name)) (\<lambda>v.
       whenever (v \<noteq> JBool False \<and> v \<noteq> JBool True) (validationError (FieldNotBoolean name)))"

text \<open>
  \<^verbatim>\<open>field.match(r)\<close> and \<^verbatim>\<open>field.startsWith(p)\<close>: methods of strings. On any other value
  the property is \<^verbatim>\<open>undefined\<close>, or an entry of a table, which is no function: the
  call raises a TypeError.
\<close>

fun js_match :: "jsval \<Rightarrow> regex \<Rightarrow> exn + bool" where
  "js_match (JStr s) r = Inr (js_search r s)"
| "js_match _ r = Inl TypeError"

fun js_startsWith :: "jsval \<Rightarrow> string \<Rightarrow> exn + bool" where
  "js_startsWith (JStr s) p = Inr (take (length p) s = p)"
| "js_startsWith _ p = Inl TypeError"

definition validateIsDate :: "jsval \<Rightarrow> string \<Rightarrow> unit comp" where
  "validateIsDate struct name =
     validateContents struct name (\<lambda>field.
       bnd (lift (js_match field re_date)) (\<lambda>matched.
         whenever (\<not> matched)
           (validationError (NotValidDate name (case field of JStr t \<Rightarrow> t | _ \<Rightarrow> [])))))"


subsection \<open>The metadata document\<close>

text \<open>The test of \<^verbatim>\<open>github_issues\<close> (lines 136 to 147).\<close>

definition check_issues :: "jsval \<Rightarrow> unit comp" where
  "check_issues field =
     (case field of
        JArr xs \<Rightarrow> for_each xs (\<lambda>x. whenever (\<not> is_number x) (validationError IssueNotNumber))
      | _ \<Rightarrow> validationError IssuesNotArray)"

text \<open>Lines 135 to 148.\<close>

definition validate_github_issues :: "jsval \<Rightarrow> unit comp" where
  "validate_github_issues tomlDoc =
     bnd (lift (js_get tomlDoc ''github_issues'')) (\<lambda>issues.
       whenever (issues \<noteq> JUndefined) (validateContents tomlDoc ''github_issues'' check_issues))"

text \<open>The tests of one release (lines 159 to 171); \<open>i\<close> counts from 0.\<close>

definition check_release_title :: "nat \<Rightarrow> jsval \<Rightarrow> unit comp" where
  "check_release_title i field =
     bnd (lift (js_get field ''length'')) (\<lambda>len.
       if len \<noteq> JNum 16 then validationError (ReleaseTitleLength (i + 1))
       else bnd (lift (js_match field re_title_id)) (\<lambda>matched.
              whenever (\<not> matched) (validationError (ReleaseTitleNotHex (i + 1)))))"

definition check_release_region :: "env \<Rightarrow> config \<Rightarrow> nat \<Rightarrow> jsval \<Rightarrow> unit comp" where
  "check_release_region env cfg i field =
     whenever (field \<notin> set (map JStr (regions cfg)))
       (bnd (lift (js_toString (obj_text env) field)) (\<lambda>text.
          validationError (ReleaseInvalidRegion (i + 1) text)))"

definition check_release :: "env \<Rightarrow> config \<Rightarrow> nat \<Rightarrow> jsval \<Rightarrow> unit comp" where
  "check_release env cfg i release =
     block
       [validateContents release ''title'' (check_release_title i),
        validateContents release ''region'' (check_release_region env cfg i),
        validateIsDate release ''release_date'']"

text \<open>
  The tests of one test case. Lines 186 to 192 fold the compatibility into the running
  minimum \<^verbatim>\<open>maxCompatibility\<close>: \<^verbatim>\<open>NaN < maxCompatibility\<close> is false, so a text that
  \<^verbatim>\<open>parseInt\<close> cannot read leaves it as it was.
\<close>

definition testcase_compatibility :: "env \<Rightarrow> jsval \<Rightarrow> int \<Rightarrow> int comp" where
  "testcase_compatibility env testcase maxCompatibility =
     seq (validateNotEmpty testcase ''compatibility'')
       (bnd (lift (js_get testcase ''compatibility'')) (\<lambda>c.
          if c \<noteq> JUndefined
          then bnd (lift (parseInt (obj_text env) c)) (\<lambda>compat.
                 case compat of
                   None \<Rightarrow> ret maxCompatibility
                 | Some n \<Rightarrow> if n < maxCompatibility then ret n else ret maxCompatibility)
          else ret maxCompatibility))"

definition check_version :: "nat \<Rightarrow> jsval \<Rightarrow> unit comp" where
  "check_version i test =
     bnd (lift (js_get test ''length'')) (\<lambda>len.
       if len \<noteq> JNum 12 then validationError (TestcaseVersionLength (i + 1))
       else bnd (lift (js_startsWith test ''HEAD-'')) (\<lambda>starts.
              whenever (\<not> starts) (validationError (TestcaseVersionSource (i + 1)))))"

text \<open>Lines 194 to 202: the other fields of a test case.\<close>

definition testcase_fields :: "nat \<Rightarrow> jsval \<Rightarrow> unit comp" where
  "testcase_fields i testcase =
     block
       [validateIsDate testcase ''date'',
        validateContents testcase ''version'' (check_version i),
        validateNotEmpty testcase ''author'']"

definition check_testcase :: "env \<Rightarrow> nat \<Rightarrow> jsval \<Rightarrow> int \<Rightarrow> int comp" where
  "check_testcase env i testcase maxCompatibility =
     bnd (testcase_compatibility env testcase maxCompatibility) (\<lambda>m.
       seq (testcase_fields i testcase) (ret m))"

primrec testcases_loop :: "env \<Rightarrow> nat \<Rightarrow> jsval list \<Rightarrow> int \<Rightarrow> int comp" where
  "testcases_loop env i [] maxCompatibility = ret maxCompatibility"
| "testcases_loop env i (testcase # rest) maxCompatibility =
     bnd (check_testcase env i testcase maxCompatibility) (testcases_loop env (Suc i) rest)"

text \<open>
  \<^verbatim>\<open>section[0]\<close> to \<^verbatim>\<open>section[section.length - 1]\<close>: the elements of an array, the
  characters of a string, each a string of its own. A number, a boolean and a date
  have no \<^verbatim>\<open>length\<close>, and \<^verbatim>\<open>i < undefined\<close> is false: the loop body never runs. So it is
  with a table, as long as the table has no entry named \<^verbatim>\<open>length\<close> of its own; a table
  with such an entry in the place of \<^verbatim>\<open>releases\<close> or \<^verbatim>\<open>testcases\<close> is outside this model.
\<close>

definition section_entries :: "jsval \<Rightarrow> jsval list" where
  "section_entries section =
     (case section of
        JArr xs \<Rightarrow> xs
      | JStr t \<Rightarrow> map (\<lambda>c. JStr [c]) t
      | _ \<Rightarrow> [])"

definition check_releases :: "env \<Rightarrow> config \<Rightarrow> jsval \<Rightarrow> unit comp" where
  "check_releases env cfg tomlDoc =
     bnd (lift (js_get tomlDoc ''releases'')) (\<lambda>section.
       if section \<noteq> JUndefined then for_index 0 (section_entries section) (check_release env cfg)
       else validationError NoReleases)"

definition check_testcases :: "env \<Rightarrow> jsval \<Rightarrow> int comp" where
  "check_testcases env tomlDoc =
     bnd (lift (js_get tomlDoc ''testcases'')) (\<lambda>section.
       if section \<noteq> JUndefined then testcases_loop env 0 (section_entries section) 999
       else seq (validationError NoTestcases) (ret 999))"

text \<open>Lines 212 to 215.\<close>

definition check_resources :: "jsval \<Rightarrow> int \<Rightarrow> unit comp" where
  "check_resources tomlDoc maxCompatibility =
     whenever (maxCompatibility < 5)
       (seq (validateIsBoolean tomlDoc ''needs_system_files'')
            (validateIsBoolean tomlDoc ''needs_shared_font''))"

text \<open>Lines 132 to 215: the checks of a parsed document.\<close>

definition validate_document :: "env \<Rightarrow> config \<Rightarrow> jsval \<Rightarrow> unit comp" where
  "validate_document env cfg tomlDoc =
     block
       [validateNotEmpty tomlDoc ''title'',
        validateNotEmpty tomlDoc ''description'',
        validate_github_issues tomlDoc,
        check_releases env cfg tomlDoc,
        bnd (check_testcases env tomlDoc) (check_resources tomlDoc)]"

definition validateTOML :: "env \<Rightarrow> config \<Rightarrow> string \<Rightarrow> unit comp" where
  "validateTOML env cfg path =
     (if existsSync env path = False then validationError (TomlNotFound path)
      else
        bnd (lift (readFileSync env path)) (\<lambda>rawContents.
          case toml_parse env rawContents of
            Inl (line, message) \<Rightarrow> validationError (TomlParseError line message)
          | Inr tomlDoc \<Rightarrow> validate_document env cfg tomlDoc))"

subsection \<open>Save bundles\<close>





text \<open>
  \<^verbatim>\<open>xs.indexOf(x)\<close> and \<^verbatim>\<open>s.lastIndexOf(".")\<close>: the first and the last position, or -1.
  \<^verbatim>\<open>file.substr(0, n)\<close> is the first \<open>n\<close> characters, and empty for a negative \<open>n\<close>.
\<close>

primrec indexOf :: "'a list \<Rightarrow> 'a \<Rightarrow> int" where
  "indexOf [] x = - 1"
| "indexOf (y # ys) x =
     (if y = x then 0 else (let r = indexOf ys x in if r = - 1 then - 1 else r + 1))"

definition lastIndexOf :: "'a list \<Rightarrow> 'a \<Rightarrow> int" where
  "lastIndexOf s x =
     (let r = indexOf (rev s) x in if r = - 1 then - 1 else int (length s) - 1 - r)"

definition strip_extension :: "string \<Rightarrow> string" where
  "strip_extension file = take (nat (lastIndexOf file CHR ''.'')) file"






subsection \<open>The game loop and the report\<close>








section \<open>Notions used in the statements\<close>

text \<open>The state after recording the messages \<open>ms\<close>, in this order, for the current game.\<close>

definition with_errors :: "state \<Rightarrow> msg list \<Rightarrow> state" where
  "with_errors s ms = s\<lparr>errors := errors s @ map (\<lambda>m. \<lparr>game = currentGame s, error = m\<rparr>) ms\<rparr>"

text \<open>The words a regular expression matches in full.\<close>

primrec power_lang :: "nat \<Rightarrow> string set \<Rightarrow> string set" where
  "power_lang 0 L = {[]}"
| "power_lang (Suc n) L = {u @ v | u v. u \<in> L \<and> v \<in> power_lang n L}"

primrec lang :: "regex \<Rightarrow> string set" where
  "lang (Chr c) = {[c]}"
| "lang (Range lo hi) = {[x] | x. in_range lo hi x}"
| "lang (Alt a b) = lang a \<union> lang b"
| "lang (Cat a b) = {u @ v | u v. u \<in> lang a \<and> v \<in> lang b}"
| "lang (Times n a) = power_lang n (lang a)"

text \<open>The characters of \<^verbatim>\<open>[a-zA-Z0-9]\<close>.\<close>

definition alphanumeric :: "char \<Rightarrow> bool" where
  "alphanumeric c =
     (in_range CHR ''a'' CHR ''z'' c \<or> in_range CHR ''A'' CHR ''Z'' c \<or> in_range CHR ''0'' CHR ''9'' c)"

text \<open>
  A date as the specification words it: \<^verbatim>\<open>YYYY-MM-DD\<close>, four digits, a month from 01 to
  12 and a day from 01 to 31, each of two digits.
\<close>

definition digit_char :: "char \<Rightarrow> bool" where
  "digit_char c = in_range CHR ''0'' CHR ''9'' c"

definition two_digits :: "nat \<Rightarrow> nat \<Rightarrow> string \<Rightarrow> bool" where
  "two_digits lo hi w =
     (length w = 2 \<and> list_all digit_char w \<and> lo \<le> digits_value 10 w \<and> digits_value 10 w \<le> hi)"

definition date_text :: "string \<Rightarrow> bool" where
  "date_text w =
     (length w = 10 \<and> list_all digit_char (take 4 w) \<and> w ! 4 = CHR ''-''
      \<and> two_digits 1 12 (take 2 (drop 5 w)) \<and> w ! 7 = CHR ''-''
      \<and> two_digits 1 31 (drop 8 w))"




text \<open>An environment in which nothing exists, to build examples from.\<close>

definition empty_env :: env where
  "empty_env =
     \<lparr>existsSync = (\<lambda>p. False),
      readdirSync = (\<lambda>p. Inr []),
      lstatSync = (\<lambda>p. Inl (Error ''ENOENT'')),
      path_join = (\<lambda>a b. a @ ''/'' @ b),
      readFileSync = (\<lambda>p. Inl (Error ''ENOENT'')),
      readChunk = (\<lambda>p pos len. Inl (Error ''ENOENT'')),
      imageType = (\<lambda>buffer. None),
      sizeOf = (\<lambda>p. Inl (Error ''ENOENT'')),
      toml_parse = (\<lambda>raw. Inr (JObj [])),
      obj_text = Inr ''[object Object]'',
      groupBy = (\<lambda>es. [])\<rparr>"



text \<open>A configuration to build examples from.\<close>

definition example_config :: config where
  "example_config =
     \<lparr>directory = ''games'',
      boxart_filename = ''boxart.png'',
      boxart = \<lparr>cwidth = 328, cheight = 300, ctype = ''image/png''\<rparr>,
      icon_filename = ''icon.png'',
      icon = \<lparr>cwidth = 48, cheight = 48, ctype = ''image/png''\<rparr>,
      data_filename = ''game.dat'',
      screenshots_dirname = ''screenshots'',
      screenshots = \<lparr>cwidth = 400, cheight = 480, ctype = ''image/png''\<rparr>,
      saves_dirname = ''savefiles'',
      regions = [''USA'', ''EUR'', ''JPN'']\<rparr>"




section \<open>The matcher and the words of an expression\<close>

lemma set_concat_step:
  assumes A: "set xs = {t. \<exists>m. m \<in> LA \<and> s = m @ t}"
    and B: "\<And>x. x \<in> set xs \<Longrightarrow> set (g x) = {t. \<exists>m. m \<in> LB \<and> x = m @ t}"
  shows "set (concat (map g xs)) = {t. \<exists>m. m \<in> {u @ v | u v. u \<in> LA \<and> v \<in> LB} \<and> s = m @ t}"
proof (rule set_eqI, rule iffI)
  fix t assume "t \<in> set (concat (map g xs))"
  then obtain x where x: "x \<in> set xs" and t: "t \<in> set (g x)" by auto
  from x A obtain u where u: "u \<in> LA" "s = u @ x" by auto
  from t B [OF x] obtain v where v: "v \<in> LB" "x = v @ t" by auto
  from u v have "u @ v \<in> {u @ v | u v. u \<in> LA \<and> v \<in> LB}" "s = (u @ v) @ t" by auto
  then show "t \<in> {t. \<exists>m. m \<in> {u @ v | u v. u \<in> LA \<and> v \<in> LB} \<and> s = m @ t}" by blast
next
  fix t assume "t \<in> {t. \<exists>m. m \<in> {u @ v | u v. u \<in> LA \<and> v \<in> LB} \<and> s = m @ t}"
  then obtain u v where uv: "u \<in> LA" "v \<in> LB" "s = (u @ v) @ t" by auto
  then have x: "v @ t \<in> set xs" using A by auto
  with B [OF x] uv have "t \<in> set (g (v @ t))" by auto
  with x show "t \<in> set (concat (map g xs))" by auto
qed

lemma rmatch_lang: "set (rmatch r s) = {t. \<exists>m. m \<in> lang r \<and> s = m @ t}"
proof (induction r s rule: rmatch.induct)
  case (1 c s) then show ?case by (cases s) auto
next
  case (2 lo hi s) then show ?case by (cases s) auto
next
  case (3 a b s) then show ?case by auto
next
  case (4 a b s)
  have "set (concat (map (rmatch b) (rmatch a s))) =
        {t. \<exists>m. m \<in> {u @ v | u v. u \<in> lang a \<and> v \<in> lang b} \<and> s = m @ t}"
    by (rule set_concat_step [OF "4.IH"(1) "4.IH"(2)])
  then show ?case by simp
next
  case (5 a s) then show ?case by simp
next
  case (6 n a s)
  have "set (concat (map (rmatch (Times n a)) (rmatch a s))) =
        {t. \<exists>m. m \<in> {u @ v | u v. u \<in> lang a \<and> v \<in> lang (Times n a)} \<and> s = m @ t}"
    by (rule set_concat_step [OF "6.IH"(1) "6.IH"(2)])
  then show ?case by simp
qed

lemma rmatch_nonempty: "rmatch r s \<noteq> [] \<longleftrightarrow> (\<exists>m post. m \<in> lang r \<and> s = m @ post)"
proof -
  have "rmatch r s \<noteq> [] \<longleftrightarrow> set (rmatch r s) \<noteq> {}" by simp
  also have "\<dots> \<longleftrightarrow> (\<exists>m post. m \<in> lang r \<and> s = m @ post)"
    unfolding rmatch_lang by blast
  finally show ?thesis .
qed

lemma js_search_iff: "js_search r s \<longleftrightarrow> (\<exists>pre m post. m \<in> lang r \<and> s = pre @ m @ post)"
proof (induction s)
  case Nil
  then show ?case by (simp add: rmatch_nonempty)
next
  case (Cons c t)
  show ?case
  proof
    assume "js_search r (c # t)"
    then consider "rmatch r (c # t) \<noteq> []" | "js_search r t" by auto
    then show "\<exists>pre m post. m \<in> lang r \<and> c # t = pre @ m @ post"
    proof cases
      case 1
      then obtain m post where "m \<in> lang r" "c # t = m @ post"
        unfolding rmatch_nonempty by blast
      then have "m \<in> lang r \<and> c # t = [] @ m @ post" by simp
      then show ?thesis by blast
    next
      case 2
      with Cons obtain pre m post where "m \<in> lang r" "t = pre @ m @ post" by blast
      then have "m \<in> lang r \<and> c # t = (c # pre) @ m @ post" by simp
      then show ?thesis by blast
    qed
  next
    assume "\<exists>pre m post. m \<in> lang r \<and> c # t = pre @ m @ post"
    then obtain pre m post where m: "m \<in> lang r" and e: "c # t = pre @ m @ post" by blast
    show "js_search r (c # t)"
    proof (cases pre)
      case Nil
      with m e have "rmatch r (c # t) \<noteq> []" unfolding rmatch_nonempty by auto
      then show ?thesis by simp
    next
      case (Cons p ps)
      with e have "t = ps @ m @ post" by simp
      with m Cons.IH have "js_search r t" by blast
      then show ?thesis by simp
    qed
  qed
qed

lemma js_search_sublist: "js_search r s \<longleftrightarrow> (\<exists>m. m \<in> lang r \<and> sublist m s)"
  unfolding js_search_iff sublist_def by blast

lemma lang_alnum: "lang re_alnum = {[c] | c. alphanumeric c}"
  by (auto simp: re_alnum_def alphanumeric_def)

lemma power_lang_singletons:
  "power_lang n {[c] | c. P c} = {w. length w = n \<and> (\<forall>c \<in> set w. P c)}"
proof (induction n)
  case 0 then show ?case by auto
next
  case (Suc n)
  show ?case
  proof (rule set_eqI, rule iffI)
    fix w assume "w \<in> power_lang (Suc n) {[c] | c. P c}"
    then obtain c v where "w = [c] @ v" "P c" "v \<in> power_lang n {[c] | c. P c}" by auto
    with Suc show "w \<in> {w. length w = Suc n \<and> (\<forall>c \<in> set w. P c)}" by auto
  next
    fix w assume w: "w \<in> {w. length w = Suc n \<and> (\<forall>c \<in> set w. P c)}"
    then obtain c v where cv: "w = c # v" by (cases w) auto
    with w Suc have "P c" "v \<in> power_lang n {[c] | c. P c}" by auto
    with cv have "w = [c] @ v \<and> [c] \<in> {[c] | c. P c} \<and> v \<in> power_lang n {[c] | c. P c}" by auto
    then show "w \<in> power_lang (Suc n) {[c] | c. P c}" unfolding power_lang.simps by blast
  qed
qed

lemma lang_title_id: "lang re_title_id = {w. length w = 16 \<and> (\<forall>c \<in> set w. alphanumeric c)}"
  by (simp add: re_title_id_def lang_alnum power_lang_singletons)

lemma sublist_same_length: "length m = length s \<Longrightarrow> sublist m s \<longleftrightarrow> m = s"
proof
  assume l: "length m = length s" and "sublist m s"
  then obtain pre post where e: "s = pre @ m @ post" unfolding sublist_def by blast
  with l have "pre = []" "post = []" by auto
  with e show "m = s" by simp
qed simp

lemma title_id_search:
  "length t = 16 \<Longrightarrow> js_search re_title_id t \<longleftrightarrow> (\<forall>c \<in> set t. alphanumeric c)"
proof -
  assume l: "length t = 16"
  have "js_search re_title_id t \<longleftrightarrow> (\<exists>m. length m = 16 \<and> (\<forall>c \<in> set m. alphanumeric c) \<and> sublist m t)"
    unfolding js_search_sublist lang_title_id by simp
  also have "\<dots> \<longleftrightarrow> (\<forall>c \<in> set t. alphanumeric c)"
    using l sublist_same_length [of _ t] by auto
  finally show ?thesis .
qed

section \<open>The pattern of a date\<close>

lemma of_char_same: "(of_char c :: nat) = of_char d \<longleftrightarrow> c = d"
  by simp

lemma length_two: "length w = 2 \<longleftrightarrow> (\<exists>a b. w = [a, b])"
  by (cases w; cases "tl w") auto

lemma of_char_is_0: "(of_char a :: nat) = 48 \<longleftrightarrow> a = CHR ''0''"
  using of_char_same [of a "CHR ''0''"] by simp
lemma of_char_is_1: "(of_char a :: nat) = 49 \<longleftrightarrow> a = CHR ''1''"
  using of_char_same [of a "CHR ''1''"] by simp
lemma of_char_is_3: "(of_char a :: nat) = 51 \<longleftrightarrow> a = CHR ''3''"
  using of_char_same [of a "CHR ''3''"] by simp

lemma lang_CatI: "u \<in> lang a \<Longrightarrow> v \<in> lang b \<Longrightarrow> u @ v \<in> lang (Cat a b)"
  by auto

lemma lang_pair:
  "[x] \<in> lang a \<Longrightarrow> [y] \<in> lang b \<Longrightarrow> [x, y] \<in> lang (Cat a b)"
  using lang_CatI [of "[x]" a "[y]" b] by simp

lemma lang_RangeI: "in_range lo hi x \<Longrightarrow> [x] \<in> lang (Range lo hi)"
  by simp

lemma lang_month: "lang re_month = {w. two_digits 1 12 w}"
proof (rule set_eqI, rule iffI)
  fix w assume "w \<in> lang re_month"
  then show "w \<in> {w. two_digits 1 12 w}"
    by (auto simp: re_month_def two_digits_def digit_char_def in_range_def digits_value_def digit_val_def)
next
  fix w assume "w \<in> {w. two_digits 1 12 w}"
  then obtain a b where w: "w = [a, b]" and t: "two_digits 1 12 [a, b]"
    by (auto simp: two_digits_def length_two)
  from t have r: "48 \<le> (of_char a :: nat)" "(of_char a :: nat) \<le> 57" "48 \<le> (of_char b :: nat)" "(of_char b :: nat) \<le> 57"
     and v: "1 \<le> (of_char a - 48) * 10 + (of_char b - (48::nat))" "(of_char a - 48) * 10 + (of_char b - (48::nat)) \<le> 12"
    by (auto simp: two_digits_def digit_char_def in_range_def digits_value_def digit_val_def)
  from r v have "((of_char a :: nat) = 48 \<and> 49 \<le> (of_char b :: nat) \<and> (of_char b :: nat) \<le> 57)
     \<or> ((of_char a :: nat) = 49 \<and> 48 \<le> (of_char b :: nat) \<and> (of_char b :: nat) \<le> 50)"
    by arith
  then show "w \<in> lang re_month"
    unfolding w of_char_is_0 of_char_is_1 re_month_def
    by (auto simp: in_range_def intro!: lang_pair lang_RangeI simp del: lang.simps(2,4))
qed

lemma lang_day: "lang re_day = {w. two_digits 1 31 w}"
proof (rule set_eqI, rule iffI)
  fix w assume "w \<in> lang re_day"
  then show "w \<in> {w. two_digits 1 31 w}"
    by (auto simp: re_day_def two_digits_def digit_char_def in_range_def digits_value_def digit_val_def)
next
  fix w assume "w \<in> {w. two_digits 1 31 w}"
  then obtain a b where w: "w = [a, b]" and t: "two_digits 1 31 [a, b]"
    by (auto simp: two_digits_def length_two)
  from t have r: "48 \<le> (of_char a :: nat)" "(of_char a :: nat) \<le> 57" "48 \<le> (of_char b :: nat)" "(of_char b :: nat) \<le> 57"
     and v: "1 \<le> (of_char a - 48) * 10 + (of_char b - (48::nat))" "(of_char a - 48) * 10 + (of_char b - (48::nat)) \<le> 31"
    by (auto simp: two_digits_def digit_char_def in_range_def digits_value_def digit_val_def)
  from r v have "((of_char a :: nat) = 48 \<and> 49 \<le> (of_char b :: nat) \<and> (of_char b :: nat) \<le> 57)
     \<or> (49 \<le> (of_char a :: nat) \<and> (of_char a :: nat) \<le> 50 \<and> 48 \<le> (of_char b :: nat) \<and> (of_char b :: nat) \<le> 57)
     \<or> ((of_char a :: nat) = 51 \<and> 48 \<le> (of_char b :: nat) \<and> (of_char b :: nat) \<le> 49)"
    by arith
  then show "w \<in> lang re_day"
    unfolding w of_char_is_0 of_char_is_3 re_day_def
    by (auto simp: in_range_def intro!: lang_pair lang_RangeI simp del: lang.simps(2,4))
qed

lemma lang_digits4: "lang (Times 4 re_digit) = {w. length w = 4 \<and> list_all digit_char w}"
proof -
  have "lang re_digit = {[c] | c. digit_char c}" by (simp add: re_digit_def digit_char_def)
  then show ?thesis by (simp add: power_lang_singletons list_all_iff)
qed

lemma lang_date: "lang re_date = {w. date_text w}"
proof (rule set_eqI, rule iffI)
  fix w assume "w \<in> lang re_date"
  then obtain y m d where w: "w = y @ CHR ''-'' # m @ CHR ''-'' # d"
    and y: "y \<in> lang (Times 4 re_digit)" and m: "m \<in> lang re_month" and d: "d \<in> lang re_day"
    unfolding re_date_def by auto
  from y m d have "length y = 4" "list_all digit_char y" "two_digits 1 12 m" "two_digits 1 31 d"
    unfolding lang_digits4 lang_month lang_day by auto
  moreover then have "length m = 2" "length d = 2" by (auto simp: two_digits_def)
  ultimately show "w \<in> {w. date_text w}"
    unfolding w by (simp add: date_text_def nth_append)
next
  fix w assume "w \<in> {w. date_text w}"
  then have dt: "date_text w" by simp
  then have l: "length w = 10" by (simp add: date_text_def)
  have a: "drop 4 w = w ! 4 # drop 5 w" using l by (simp add: Cons_nth_drop_Suc [symmetric])
  have b: "drop 7 w = w ! 7 # drop 8 w" using l by (simp add: Cons_nth_drop_Suc [symmetric])
  have c: "take 2 (drop 5 w) @ drop 7 w = drop 5 w"
    using append_take_drop_id [of 2 "drop 5 w"] by simp
  have "w = take 4 w @ drop 4 w" by simp
  also have "\<dots> = take 4 w @ w ! 4 # (take 2 (drop 5 w) @ drop 7 w)" unfolding a c ..
  finally have split: "w = take 4 w @ w ! 4 # take 2 (drop 5 w) @ w ! 7 # drop 8 w"
    unfolding b .
  from dt l have "take 4 w \<in> lang (Times 4 re_digit)" "take 2 (drop 5 w) \<in> lang re_month"
     "drop 8 w \<in> lang re_day" "w ! 4 = CHR ''-''" "w ! 7 = CHR ''-''"
    unfolding lang_digits4 lang_month lang_day by (auto simp: date_text_def)
  then have "take 4 w @ [CHR ''-''] @ take 2 (drop 5 w) @ [CHR ''-''] @ drop 8 w \<in> lang re_date"
    unfolding re_date_def by (intro lang_CatI) simp_all
  then have "take 4 w @ CHR ''-'' # take 2 (drop 5 w) @ CHR ''-'' # drop 8 w \<in> lang re_date"
    by simp
  with split \<open>w ! 4 = CHR ''-''\<close> \<open>w ! 7 = CHR ''-''\<close> show "w \<in> lang re_date" by simp
qed

section \<open>Sequencing and recorded errors\<close>

lemmas comp_defs = bnd_def seq_def ret_def skip_def raise_def lift_def whenever_def

lemma validationError_with: "validationError m s = Ret () (with_errors s [m])"
  by (simp add: validationError_def with_errors_def)

lemma with_errors_Nil [simp]: "with_errors s [] = s"
  by (simp add: with_errors_def)

lemma with_errors_append [simp]: "with_errors (with_errors s a) b = with_errors s (a @ b)"
  by (simp add: with_errors_def)

lemma with_errors_fields [simp]:
  "currentGame (with_errors s ms) = currentGame s"
  "console (with_errors s ms) = console s"
  "errors (with_errors s ms) = errors s @ map (\<lambda>m. \<lparr>game = currentGame s, error = m\<rparr>) ms"
  by (simp_all add: with_errors_def)

lemma validateContents_found:
  "js_get struct name = Inr v \<Longrightarrow> v \<noteq> JUndefined \<Longrightarrow>
   validateContents struct name test s = test v s"
  by (simp add: validateContents_def validateExists_def comp_defs)


lemma for_index_whenever:
  "for_index i xs (\<lambda>i x. whenever (P x) (validationError (f x))) s =
   Ret () (with_errors s (map f (filter P xs)))"
  by (induction xs arbitrary: i s) (simp_all add: comp_defs validationError_with)

section \<open>The identifier of a release\<close>

lemma check_release_title_string:
  "check_release_title i (JStr t) s =
     Ret () (with_errors s
       (if length t \<noteq> 16 then [ReleaseTitleLength (i + 1)]
        else if \<exists>c \<in> set t. \<not> alphanumeric c then [ReleaseTitleNotHex (i + 1)]
        else []))"
  by (simp add: check_release_title_def comp_defs validationError_with title_id_search)

lemma check_release_title_cases:
  "check_release_title i field s = Thr TypeError s \<or>
   (\<exists>ms. check_release_title i field s = Ret () (with_errors s ms) \<and> length ms \<le> 1)"
proof (cases "js_get field ''length'' = Inr (JNum 16)")
  case False
  show ?thesis
  proof (cases "js_get field ''length''")
    case (Inl e)
    then have "field = JUndefined" "e = TypeError"
      by (cases field; auto split: option.splits if_splits)+
    then show ?thesis by (simp add: check_release_title_def comp_defs)
  next
    case (Inr len)
    with False have "check_release_title i field s
        = Ret () (with_errors s [ReleaseTitleLength (i + 1)])"
      by (simp add: check_release_title_def comp_defs validationError_with)
    moreover have "length [ReleaseTitleLength (i + 1)] \<le> 1" by simp
    ultimately show ?thesis by blast
  qed
next
  case True
  show ?thesis
  proof (cases field)
    case (JStr t)
    have "length (if length t \<noteq> 16 then [ReleaseTitleLength (i + 1)]
        else if \<exists>c \<in> set t. \<not> alphanumeric c then [ReleaseTitleNotHex (i + 1)]
        else []) \<le> 1" by simp
    with check_release_title_string [of i t s] JStr show ?thesis by blast
  qed (use True in \<open>simp_all add: check_release_title_def comp_defs\<close>)
qed

text \<open>
  Claim C2, as amended. The test of the identifier is an \<^verbatim>\<open>if\<close> with an \<^verbatim>\<open>else if\<close>:
  for a release whose \<^verbatim>\<open>title\<close> is a string, a length other than 16 records the length
  error and the pattern is not tried; at length 16 the pattern is tried and the
  hexadecimal error is recorded exactly when some character is not alphanumeric.
  Whatever the value of the title, the test records at most one error, or raises a
  TypeError and records none: the two errors never come together.
\<close>

theorem release_title_one_error:
  "(js_get release ''title'' = Inr (JStr t) \<longrightarrow>
      validateContents release ''title'' (check_release_title i) s =
        Ret () (with_errors s
          (if length t \<noteq> 16 then [ReleaseTitleLength (i + 1)]
           else if \<exists>c \<in> set t. \<not> alphanumeric c then [ReleaseTitleNotHex (i + 1)]
           else [])))
   \<and> (check_release_title i field s = Thr TypeError s \<or>
       (\<exists>ms. check_release_title i field s = Ret () (with_errors s ms) \<and> length ms \<le> 1))"
  using check_release_title_cases [of i field s]
  by (simp add: validateContents_found check_release_title_string)

theorem release_title_one_error_witness:
  "validateContents (JObj [(''title'', JStr ''0004000000030800'')]) ''title''
        (check_release_title 0) initial = Ret () initial
   \<and> validateContents (JObj [(''title'', JStr ''0004-00000030800'')]) ''title''
        (check_release_title 0) initial = Ret () (with_errors initial [ReleaseTitleNotHex 1])"
proof
  from release_title_one_error
    [where release = "JObj [(''title'', JStr ''0004000000030800'')]"
       and t = "''0004000000030800''" and i = 0 and s = initial and field = JUndefined]
  show "validateContents (JObj [(''title'', JStr ''0004000000030800'')]) ''title''
        (check_release_title 0) initial = Ret () initial"
    by (simp add: alphanumeric_def in_range_def)
  from release_title_one_error
    [where release = "JObj [(''title'', JStr ''0004-00000030800'')]"
       and t = "''0004-00000030800''" and i = 0 and s = initial and field = JUndefined]
  show "validateContents (JObj [(''title'', JStr ''0004-00000030800'')]) ''title''
        (check_release_title 0) initial = Ret () (with_errors initial [ReleaseTitleNotHex 1])"
    by (simp add: alphanumeric_def in_range_def)
qed

text \<open>
  The claim as stated fails at the title \<^verbatim>\<open>!!!!!\<close>: it has the wrong length and does not
  match the pattern, and the length error alone is recorded.
\<close>

theorem release_title_both_counterexample:
  "\<not> js_search re_title_id ''!!!!!''
   \<and> validateContents (JObj [(''title'', JStr ''!!!!!'')]) ''title'' (check_release_title 0) initial
     = Ret () \<lparr>currentGame = None,
               errors = [\<lparr>game = None, error = ReleaseTitleLength 1\<rparr>],
               console = []\<rparr>"
proof
  show "\<not> js_search re_title_id ''!!!!!''"
    by (simp add: re_title_id_def re_alnum_def in_range_def numeral_eq_Suc)
  show "validateContents (JObj [(''title'', JStr ''!!!!!'')]) ''title'' (check_release_title 0) initial
     = Ret () \<lparr>currentGame = None,
               errors = [\<lparr>game = None, error = ReleaseTitleLength 1\<rparr>],
               console = []\<rparr>"
    by (simp add: validateContents_def validateExists_def check_release_title_def comp_defs
        validationError_def initial_def)
qed

section \<open>The list of issues\<close>

text \<open>
  Claim C6, as amended. When \<^verbatim>\<open>github_issues\<close> is present: a value that is not an array
  records one error; in an array every element that is not a number records an error
  of its own, with no stop at the first; an array of numbers, integers or not,
  records nothing.
\<close>

theorem github_issues_errors:
  assumes "js_get tomlDoc ''github_issues'' = Inr v" and "v \<noteq> JUndefined"
  shows "validate_github_issues tomlDoc s =
         Ret () (with_errors s
           (case v of
              JArr xs \<Rightarrow> map (\<lambda>x. IssueNotNumber) (filter (\<lambda>x. \<not> is_number x) xs)
            | _ \<Rightarrow> [IssuesNotArray]))"
proof -
  have "validate_github_issues tomlDoc s = check_issues v s"
    using assms by (simp add: validate_github_issues_def validateContents_found comp_defs)
  also have "\<dots> = Ret () (with_errors s
           (case v of
              JArr xs \<Rightarrow> map (\<lambda>x. IssueNotNumber) (filter (\<lambda>x. \<not> is_number x) xs)
            | _ \<Rightarrow> [IssuesNotArray]))"
    by (cases v)
      (simp_all add: check_issues_def validationError_with for_each_def for_index_whenever)
  finally show ?thesis .
qed

theorem github_issues_errors_witness:
  "validate_github_issues
     (JObj [(''github_issues'', JArr [JStr ''12'', JNum 7, JBool True])]) initial
   = Ret () (with_errors initial [IssueNotNumber, IssueNotNumber])"
  using github_issues_errors
    [of "JObj [(''github_issues'', JArr [JStr ''12'', JNum 7, JBool True])]"
        "JArr [JStr ''12'', JNum 7, JBool True]" initial]
  by (simp add: is_number_def)

text \<open>
  The claim as stated fails at the list \<^verbatim>\<open>[1.5]\<close>: its element is a number and not an
  integer, and nothing is recorded.
\<close>

theorem github_issues_float_counterexample:
  "(\<forall>n. JFloat ''1.5'' \<noteq> JNum n)
   \<and> validate_github_issues (JObj [(''github_issues'', JArr [JFloat ''1.5''])]) initial
     = Ret () initial"
  by (simp add: validate_github_issues_def validateContents_def validateExists_def
      check_issues_def for_each_def is_number_def comp_defs)

section \<open>The date validator\<close>

lemma validateIsDate_string:
  "validateIsDate struct name s =
     validateContents struct name (\<lambda>field. case field of
         JStr t \<Rightarrow> whenever (\<not> js_search re_date t) (validationError (NotValidDate name t))
       | _ \<Rightarrow> raise TypeError) s"
proof -
  have "(\<lambda>field. bnd (lift (js_match field re_date)) (\<lambda>matched.
         whenever (\<not> matched)
           (validationError (NotValidDate name (case field of JStr t \<Rightarrow> t | _ \<Rightarrow> [])))))
     = (\<lambda>field. case field of
         JStr t \<Rightarrow> whenever (\<not> js_search re_date t) (validationError (NotValidDate name t))
       | _ \<Rightarrow> raise TypeError)"
  proof (rule ext, rule ext)
    fix field s
    show "bnd (lift (js_match field re_date)) (\<lambda>matched.
         whenever (\<not> matched)
           (validationError (NotValidDate name (case field of JStr t \<Rightarrow> t | _ \<Rightarrow> [])))) s
       = (case field of
         JStr t \<Rightarrow> whenever (\<not> js_search re_date t) (validationError (NotValidDate name t))
       | _ \<Rightarrow> raise TypeError) s"
      by (cases field) (simp_all add: comp_defs)
  qed
  then show ?thesis by (simp add: validateIsDate_def)
qed

text \<open>
  Claim C9. For a field that holds a string, the date validator records nothing as
  soon as some part of the text is a date \<^verbatim>\<open>YYYY-MM-DD\<close> (month 01 to 12, day 01 to 31),
  whatever stands before or after that part, and records its error exactly when no
  part of the text is such a date: the pattern is not anchored.
\<close>

theorem date_check_unanchored:
  assumes "js_get struct name = Inr (JStr t)"
  shows "validateIsDate struct name s =
         Ret () (with_errors s
           (if \<exists>w. date_text w \<and> sublist w t then [] else [NotValidDate name t]))"
  using assms
  by (simp add: validateIsDate_string validateContents_found js_search_sublist lang_date
      comp_defs validationError_with)

theorem date_check_unanchored_witness:
  "validateIsDate (JObj [(''date'', JStr ''on 2017-06-01!'')]) ''date'' initial = Ret () initial
   \<and> validateIsDate (JObj [(''date'', JStr ''2017-13-01'')]) ''date'' initial
     = Ret () (with_errors initial [NotValidDate ''date'' ''2017-13-01''])"
proof
  have "date_text ''2017-06-01''"
    by (simp add: date_text_def two_digits_def digit_char_def in_range_def digits_value_def
        digit_val_def)
  moreover have "sublist ''2017-06-01'' ''on 2017-06-01!''"
    by (simp add: sublist_Cons_right)
  ultimately have "\<exists>w. date_text w \<and> sublist w ''on 2017-06-01!''" by blast
  with date_check_unanchored [of "JObj [(''date'', JStr ''on 2017-06-01!'')]" "''date''"
      "''on 2017-06-01!''" initial]
  show "validateIsDate (JObj [(''date'', JStr ''on 2017-06-01!'')]) ''date'' initial = Ret () initial"
    by simp
  have "\<not> js_search re_date ''2017-13-01''"
    by (simp add: re_date_def re_month_def re_day_def re_digit_def in_range_def numeral_eq_Suc)
  then have "\<not> (\<exists>w. date_text w \<and> sublist w ''2017-13-01'')"
    by (simp add: js_search_sublist lang_date)
  with date_check_unanchored [of "JObj [(''date'', JStr ''2017-13-01'')]" "''date''"
      "''2017-13-01''" initial]
  show "validateIsDate (JObj [(''date'', JStr ''2017-13-01'')]) ''date'' initial
     = Ret () (with_errors initial [NotValidDate ''date'' ''2017-13-01''])"
    by simp
qed

section \<open>A document that does not parse\<close>

text \<open>
  Claim C4. When the text of the metadata document does not parse, \<^verbatim>\<open>validateTOML\<close>
  records exactly one error, holding the line and the message the parser reports, runs
  none of the field checks and returns normally: whatever validations follow it start
  from the state with that one error added.
\<close>

theorem toml_parse_failure:
  assumes "existsSync env path" and "readFileSync env path = Inr raw"
    and "toml_parse env raw = Inl (line, message)"
  shows "validateTOML env cfg path s = Ret () (with_errors s [TomlParseError line message])
       \<and> block (validateTOML env cfg path # following) s
           = block following (with_errors s [TomlParseError line message])"
  using assms by (simp add: validateTOML_def comp_defs validationError_with)

theorem toml_parse_failure_witness:
  "validateTOML
     (empty_env\<lparr>existsSync := (\<lambda>p. True), readFileSync := (\<lambda>p. Inr [0x5B]),
                toml_parse := (\<lambda>raw. Inl (Some 1, ''Unexpected end of input''))\<rparr>)
     example_config ''games/alpha/game.dat'' initial
   = Ret () (with_errors initial [TomlParseError (Some 1) ''Unexpected end of input''])"
  using toml_parse_failure
    [of "empty_env\<lparr>existsSync := (\<lambda>p. True), readFileSync := (\<lambda>p. Inr [0x5B]),
                toml_parse := (\<lambda>raw. Inl (Some 1, ''Unexpected end of input''))\<rparr>"
        "''games/alpha/game.dat''" "[0x5B]" "Some 1" "''Unexpected end of input''" example_config initial]
  by simp

section \<open>Test cases and the resource fields\<close>

lemma validateNotEmpty_string:
  "js_get struct name = Inr (JStr t) \<Longrightarrow> t \<noteq> [] \<Longrightarrow> validateNotEmpty struct name s = Ret () s"
  by (simp add: validateNotEmpty_def validateContents_found is_string_def comp_defs)

lemma testcase_compatibility_unparseable:
  assumes "js_get testcase ''compatibility'' = Inr (JStr t)" and "t \<noteq> []"
    and "parseInt_text t = None"
  shows "testcase_compatibility env testcase m s = Ret m s"
  using assms
  by (simp add: testcase_compatibility_def validateNotEmpty_string comp_defs parseInt_def)

lemma testcases_loop_unparseable:
  assumes "\<forall>tc \<in> set tcs. \<exists>t. js_get tc ''compatibility'' = Inr (JStr t) \<and> t \<noteq> [] \<and> parseInt_text t = None"
  shows "testcases_loop env i tcs m s = seq (for_index i tcs testcase_fields) (ret m) s"
  using assms
proof (induction tcs arbitrary: i s)
  case Nil
  then show ?case by (simp add: comp_defs)
next
  case (Cons tc tcs)
  then obtain t where t: "js_get tc ''compatibility'' = Inr (JStr t)" "t \<noteq> []" "parseInt_text t = None"
    by auto
  have IH: "\<And>i s. testcases_loop env i tcs m s = seq (for_index i tcs testcase_fields) (ret m) s"
    using Cons by simp
  have "check_testcase env i tc m s = seq (testcase_fields i tc) (ret m) s"
    by (simp add: check_testcase_def bnd_def seq_def
        testcase_compatibility_unparseable [OF t])
  then show ?case
    by (simp add: IH bnd_def seq_def ret_def split: outcome.splits)
qed

text \<open>
  Claim C10. A test case whose \<^verbatim>\<open>compatibility\<close> is a non-empty string in which
  \<^verbatim>\<open>parseInt\<close> reads no integer records no error for it and leaves the running minimum
  as it was. When this is so of every test case, the loop does what the checks of the
  other fields do and ends with the minimum at its initial 999, and then the two
  resource fields are not checked.
\<close>

theorem unparseable_compatibility:
  "(js_get testcase ''compatibility'' = Inr (JStr t) \<and> t \<noteq> [] \<and> parseInt_text t = None
      \<longrightarrow> testcase_compatibility env testcase m s = Ret m s)
   \<and> ((\<forall>tc \<in> set tcs. \<exists>t. js_get tc ''compatibility'' = Inr (JStr t) \<and> t \<noteq> []
                          \<and> parseInt_text t = None)
      \<longrightarrow> testcases_loop env 0 tcs 999 s = seq (for_index 0 tcs testcase_fields) (ret 999) s
        \<and> check_resources tomlDoc 999 s' = Ret () s')"
  by (auto simp: testcase_compatibility_unparseable testcases_loop_unparseable
      check_resources_def comp_defs)

lemma parseInt_text_abc: "parseInt_text ''abc'' = None"
  by (simp add: parseInt_text_def is_space_def is_digit_of_def digit_val_def in_range_def)

theorem unparseable_compatibility_witness:
  "testcase_compatibility empty_env (JObj [(''compatibility'', JStr ''abc'')]) 3 initial = Ret 3 initial
   \<and> testcases_loop empty_env 0 
        [JObj [(''compatibility'', JStr ''abc''), (''date'', JStr ''2017-06-01''),
               (''version'', JStr ''HEAD-0123456''), (''author'', JStr ''someone'')]] 999 initial
      = Ret 999 initial"
proof -
  let ?tc = "JObj [(''compatibility'', JStr ''abc''), (''date'', JStr ''2017-06-01''),
               (''version'', JStr ''HEAD-0123456''), (''author'', JStr ''someone'')]"
  have d: "js_search re_date ''2017-06-01''"
    by (simp add: re_date_def re_month_def re_day_def re_digit_def in_range_def numeral_eq_Suc)
  have f: "for_index 0 [?tc] testcase_fields initial = Ret () initial"
    by (simp add: testcase_fields_def validateIsDate_string validateContents_found
        validateNotEmpty_string check_version_def d comp_defs del: js_search.simps)
  note u = unparseable_compatibility
    [where testcase = "JObj [(''compatibility'', JStr ''abc'')]" and t = "''abc''"
       and env = empty_env and m = 3 and s = initial and tcs = "[?tc]"
       and tomlDoc = "JObj []" and s' = initial]
  have h1: "js_get (JObj [(''compatibility'', JStr ''abc'')]) ''compatibility'' = Inr (JStr ''abc'')
            \<and> ''abc'' \<noteq> [] \<and> parseInt_text ''abc'' = None"
    by (simp add: parseInt_text_abc)
  have h2: "\<forall>tc \<in> set [?tc]. \<exists>t. js_get tc ''compatibility'' = Inr (JStr t) \<and> t \<noteq> []
                          \<and> parseInt_text t = None"
    by (simp add: parseInt_text_abc)
  from u h1 have a: "testcase_compatibility empty_env (JObj [(''compatibility'', JStr ''abc'')]) 3 initial
      = Ret 3 initial" by blast
  from u h2 have "testcases_loop empty_env 0 [?tc] 999 initial
      = seq (for_index 0 [?tc] testcase_fields) (ret 999) initial" by blast
  also have "\<dots> = Ret 999 initial"
    unfolding seq_def bnd_def f by (simp add: ret_def)
  finally show ?thesis using a by simp
qed
















section \<open>An image of no known format\<close>

text \<open>
  Claim C3, evaluated where it fails. The file exists and \<^verbatim>\<open>imageType\<close> finds no format
  in its first 12 bytes, so it returns \<^verbatim>\<open>null\<close> and reading \<^verbatim>\<open>.mime\<close> of it raises a
  TypeError: no format error is recorded, the dimensions are not looked at, and the
  exception leaves \<^verbatim>\<open>validateImage\<close>.
\<close>

theorem unclassified_image_raises:
  assumes "existsSync env path" and "readChunk env path 0 12 = Inr buffer"
    and "imageType env buffer = None"
  shows "validateImage env path cfg s = Thr TypeError s"
  using assms by (simp add: validateImage_def comp_defs)

theorem unclassified_image_raises_witness:
  "validateImage
     (empty_env\<lparr>existsSync := (\<lambda>p. True),
                readChunk := (\<lambda>p pos len. Inr (replicate len 0)),
                imageType := (\<lambda>buffer. None),
                sizeOf := (\<lambda>p. Inr \<lparr>width = 100, height = 100\<rparr>)\<rparr>)
     ''games/alpha/boxart.png'' \<lparr>cwidth = 328, cheight = 300, ctype = ''image/png''\<rparr> initial
   = Thr TypeError initial"
  using unclassified_image_raises
    [of "empty_env\<lparr>existsSync := (\<lambda>p. True),
                readChunk := (\<lambda>p pos len. Inr (replicate len 0)),
                imageType := (\<lambda>buffer. None),
                sizeOf := (\<lambda>p. Inr \<lparr>width = 100, height = 100\<rparr>)\<rparr>"
        "''games/alpha/boxart.png''" "replicate 12 0"
        "\<lparr>cwidth = 328, cheight = 300, ctype = ''image/png''\<rparr>" initial]
  by simp

section \<open>The report\<close>





section \<open>Save bundles\<close>

lemma indexOf_notin: "x \<notin> set xs \<Longrightarrow> indexOf xs x = - 1"
  by (induction xs) auto







lemma strip_extension_no_dot: "CHR ''.'' \<notin> set file \<Longrightarrow> strip_extension file = []"
  by (simp add: strip_extension_def lastIndexOf_def indexOf_notin)












section \<open>The game loop\<close>





















































end
